theory Spec2Isabelle
  imports Complex_Main
begin

section \<open>Edge-wise connectome statistics: the command \<open>connectomestats\<close>\<close>

text \<open>
  This development embeds \<^verbatim>\<open>cmd/connectomestats.cpp\<close>: the per-subject importer
  \<^verbatim>\<open>SubjectConnectomeImport\<close> and the command body \<^verbatim>\<open>run()\<close>. Code that the
  command calls but that lives in other translation units (the GLM tests, the enhancers,
  the permutation driver, the FWE calculator, matrix helpers) is either a parameter of
  the model or a definition written from the specification; each such definition says so.
\<close>

subsection \<open>Values, vectors and matrices\<close>

text \<open>
  A \<^verbatim>\<open>default_type\<close> is a C++ \<^verbatim>\<open>double\<close>. What the command observes of an input
  value is whether it is finite, so an input value is a real number or a non-finite
  value (NaN or an infinity). Rounding is not modelled.
\<close>

datatype default_type = Finite real | NonFinite

fun isfinite :: "default_type \<Rightarrow> bool" where
  "isfinite (Finite x) = True"
| "isfinite NonFinite = False"

type_synonym vector_type = "default_type list"

text \<open>A matrix is the list of its rows.\<close>

type_synonym matrix_type = "default_type list list"

definition rows :: "'a list list \<Rightarrow> nat" where
  "rows M = length M"

definition cols :: "'a list list \<Rightarrow> nat" where
  "cols M = (case M of [] \<Rightarrow> 0 | r # _ \<Rightarrow> length r)"

text \<open>Eigen's \<^verbatim>\<open>allFinite()\<close>: no coefficient is NaN or infinite.\<close>

definition allFinite :: "matrix_type \<Rightarrow> bool" where
  "allFinite M = list_all (list_all isfinite) M"

subsection \<open>Errors, console events and results\<close>

text \<open>
  Every \<^verbatim>\<open>throw Exception (...)\<close> of the command is one constructor; the comment gives
  the source line. \<open>External\<close> is an exception raised inside a collaborator that is outside
  connectomestats.cpp (for instance the degenerate-design failure of a GLM test).
  \<open>NoSubjects\<close> and \<open>NoHypotheses\<close> stand for the two places where the C++ indexes a
  vector at 0 without a check: on an empty vector the behaviour is undefined, and the
  model ends the run there. No property below is stated for such an input.
\<close>

datatype error =
    DirectedMatrix string              \<comment> \<open>line 133: connectome is a directed matrix\<close>
  | InvalidConnectome string           \<comment> \<open>line 131: \<^verbatim>\<open>Connectome::check\<close> rejected the matrix\<close>
  | NoSubjects                         \<comment> \<open>line 167: \<^verbatim>\<open>importer[0]\<close> on an empty cohort\<close>
  | SizeMismatch nat string            \<comment> \<open>line 171: subject index and file name\<close>
  | MissingThreshold                   \<comment> \<open>line 185: NBS without \<^verbatim>\<open>-threshold\<close>\<close>
  | UnknownAlgorithm                   \<comment> \<open>line 204\<close>
  | DesignRowsMismatch nat nat         \<comment> \<open>line 213: subjects, design rows\<close>
  | NoHypotheses                       \<comment> \<open>line 238: \<^verbatim>\<open>hypotheses[0]\<close> on an empty set\<close>
  | ContrastColsMismatch nat nat nat   \<comment> \<open>line 239: contrast columns, design columns, uses of \<^verbatim>\<open>-column\<close>\<close>
  | External string


subsection \<open>The per-subject importer\<close>

text \<open>
  \<^verbatim>\<open>SubjectConnectomeImport\<close> keeps the path (in its base class) and the vectorised
  connectome \<^verbatim>\<open>data\<close>.
\<close>

record subject =
  name :: string
  data :: vector_type

text \<open>\<^verbatim>\<open>size()\<close>, line 151.\<close>

definition size_subject :: "subject \<Rightarrow> nat" where
  "size_subject s = length (data s)"

text \<open>
  The helpers of \<^verbatim>\<open>connectome/connectome.h\<close> and \<^verbatim>\<open>connectome/mat2vec.h\<close> are outside
  connectomestats.cpp; they are parameters. \<open>check\<close> returns \<open>False\<close> where the C++ function throws.
\<close>

record connectome_ops =
  check :: "matrix_type \<Rightarrow> bool"
  is_directed :: "matrix_type \<Rightarrow> bool"
  to_upper :: "matrix_type \<Rightarrow> matrix_type"
  M2V :: "nat \<Rightarrow> matrix_type \<Rightarrow> vector_type"

text \<open>
  The constructor, lines 127-137. \<open>M\<close> is the matrix that \<^verbatim>\<open>load_matrix (path)\<close>
  returned.
\<close>

definition SubjectConnectomeImport ::
  "connectome_ops \<Rightarrow> string \<Rightarrow> matrix_type \<Rightarrow> error + subject" where
  "SubjectConnectomeImport ops path M =
     (if \<not> check ops M then Inl (InvalidConnectome path)
      else if is_directed ops M then Inl (DirectedMatrix path)
      else Inr \<lparr>name = path, data = M2V ops (rows M) (to_upper ops M)\<rparr>)"

text \<open>
  Modelled from the spec: \<^verbatim>\<open>CohortDataImport::allFinite\<close> (math/stats/import.h, outside
  connectomestats.cpp). An extra column "may itself contain non-finite values"; the cohort is
  all finite when no subject holds one.
\<close>

definition cohort_allFinite :: "subject list \<Rightarrow> bool" where
  "cohort_allFinite c = list_all (\<lambda>s. list_all isfinite (data s)) c"

subsection \<open>Hypotheses, GLM tests and enhancers\<close>

text \<open>
  What \<^verbatim>\<open>run()\<close> reads of a \<^verbatim>\<open>Hypothesis\<close>: \<^verbatim>\<open>cols()\<close>, \<^verbatim>\<open>is_F()\<close> and
  \<^verbatim>\<open>name()\<close>.
\<close>

record Hypothesis =
  Hypothesis_cols :: nat
  is_F :: bool
  Hypothesis_name :: string

text \<open>The two GLM test classes, with the constructor arguments of lines 292 and 294.\<close>

datatype glm_test =
    TestVariable "subject list list" matrix_type matrix_type "Hypothesis list" bool bool
  | TestFixed matrix_type matrix_type "Hypothesis list"

text \<open>The hypotheses a GLM test was constructed with.\<close>

fun hypotheses_of :: "glm_test \<Rightarrow> Hypothesis list" where
  "hypotheses_of (TestVariable extra_columns measurements design_matrix hyps nd nc) = hyps"
| "hypotheses_of (TestFixed measurements design_matrix hyps) = hyps"

text \<open>
  The three enhancers of lines 181-205: \<^verbatim>\<open>NBS (num_nodes, threshold)\<close> or
  \<^verbatim>\<open>NBS (num_nodes)\<close>, the TFCE wrapper around an NBS base with its parameters
  \<open>dH\<close>, \<open>E\<close>, \<open>H\<close>, and \<^verbatim>\<open>PassThrough\<close>.
\<close>

datatype enhancer =
    NBS nat "real option"
  | TFCE_Wrapper enhancer real real real
  | PassThrough

definition TFCE_DH_DEFAULT :: real where "TFCE_DH_DEFAULT = 1 / 10"
definition TFCE_E_DEFAULT :: real where "TFCE_E_DEFAULT = 4 / 10"
definition TFCE_H_DEFAULT :: real where "TFCE_H_DEFAULT = 3"
definition EMPIRICAL_SKEW_DEFAULT :: real where "EMPIRICAL_SKEW_DEFAULT = 1"

text \<open>\<^verbatim>\<open>get_option_value (name, default)\<close> on an option that is absent or present.\<close>

definition get_option_value :: "'a option \<Rightarrow> 'a \<Rightarrow> 'a" where
  "get_option_value opt dflt = (case opt of None \<Rightarrow> dflt | Some v \<Rightarrow> v)"

subsection \<open>The trace of a run\<close>

text \<open>
  A run is observed through what it prints, what it saves and which computations it
  starts. \<open>Computed\<close> marks the start of one of the four statistical computations;
  \<open>Constructed\<close> records which GLM test object was built.
\<close>

datatype stage = AllStats | EmpiricalStat | DefaultPermutation | Permutations

datatype event =
    Console string
  | Warn string
  | SaveMatrix string "real list"   \<comment> \<open>\<^verbatim>\<open>save_matrix (mat2vec.V2M (v), file)\<close>: file and \<open>v\<close>\<close>
  | SaveVector string "real list"   \<comment> \<open>\<^verbatim>\<open>save_vector (v, file)\<close>\<close>
  | Constructed glm_test
  | Computed stage

text \<open>
  A step yields the events it emitted and either the exception that ended it or its value.
\<close>

type_synonym 'a result = "event list \<times> (error + 'a)"

definition ok :: "'a \<Rightarrow> 'a result" where
  "ok x = ([], Inr x)"

definition throw :: "error \<Rightarrow> 'a result" where
  "throw e = ([], Inl e)"

definition emit :: "event list \<Rightarrow> unit result" where
  "emit evs = (evs, Inr ())"

definition lift :: "error + 'a \<Rightarrow> 'a result" where
  "lift r = ([], r)"

definition and_then :: "'a result \<Rightarrow> ('a \<Rightarrow> 'b result) \<Rightarrow> 'b result" where
  "and_then m f =
     (case m of
        (evs, Inl e) \<Rightarrow> (evs, Inl e)
      | (evs, Inr x) \<Rightarrow> (case f x of (evs', r) \<Rightarrow> (evs @ evs', r)))"

definition when_do :: "bool \<Rightarrow> unit result \<Rightarrow> unit result" where
  "when_do b m = (if b then m else ok ())"

text \<open>\<^verbatim>\<open>str (n)\<close> for an unsigned number: its decimal digits.\<close>

definition digit :: "nat \<Rightarrow> char" where
  "digit d = ''0123456789'' ! d"

fun digits :: "nat \<Rightarrow> nat \<Rightarrow> string" where
  "digits 0 n = []"
| "digits (Suc fuel) n =
     (if n < 10 then [digit n] else digits fuel (n div 10) @ [digit (n mod 10)])"

definition str :: "nat \<Rightarrow> string" where
  "str n = digits (Suc n) n"

subsection \<open>Collaborators of the command\<close>

text \<open>The outputs of \<^verbatim>\<open>Math::Stats::GLM::all_stats\<close>, read by row or by column.\<close>

record all_stats_output =
  cond :: "real list"
  betas_row :: "nat \<Rightarrow> real list"
  abs_effect_size_col :: "nat \<Rightarrow> real list"
  std_effect_size_col :: "nat \<Rightarrow> real list"
  stdev :: "real list"

text \<open>
  Code of other translation units, taken as parameters. \<open>check_design\<close> yields the
  warnings it prints and, when it throws, the message. A statistic matrix (elements by
  hypotheses in the C++) is the list of its columns, one per hypothesis. \<open>'p\<close> is the type
  of a shuffle (a permutation or a sign flip of the subjects); \<open>shuffler\<close> is the list of
  shuffles that the shuffler emits after the identity.
\<close>

record 'p collaborators =
  check_design :: "matrix_type \<Rightarrow> nat \<Rightarrow> string list \<times> string option"
  all_stats :: "matrix_type \<Rightarrow> matrix_type \<Rightarrow> subject list list \<Rightarrow> Hypothesis list
                  \<Rightarrow> all_stats_output"
  glm :: "glm_test \<Rightarrow> 'p \<Rightarrow> error + real list list"
  nbs :: "nat \<Rightarrow> real option \<Rightarrow> real list \<Rightarrow> real list"
  tfce :: "enhancer \<Rightarrow> real \<Rightarrow> real \<Rightarrow> real \<Rightarrow> real list \<Rightarrow> real list"
  precompute_empirical_stat :: "glm_test \<Rightarrow> enhancer \<Rightarrow> real \<Rightarrow> error + real list list"
  identity :: 'p
  shuffler :: "'p list"

text \<open>
  Modelled from the spec: \<^verbatim>\<open>PassThrough::operator()\<close> (connectome/enhance.h, outside
  connectomestats.cpp): the pass-through strategy "returns the raw statistic unchanged". The call
  operators of NBS and of the TFCE wrapper are parameters.
\<close>

fun enhance :: "'p collaborators \<Rightarrow> enhancer \<Rightarrow> real list \<Rightarrow> real list" where
  "enhance C (NBS num_nodes threshold) stat = nbs C num_nodes threshold stat"
| "enhance C (TFCE_Wrapper base dH E H) stat = tfce C base dH E H stat"
| "enhance C PassThrough stat = stat"

subsection \<open>The permutation test and the FWE calculator\<close>

text \<open>Eigen's \<^verbatim>\<open>maxCoeff()\<close>; it has no value on an empty vector.\<close>

fun maxCoeff :: "real list \<Rightarrow> real" where
  "maxCoeff (x # xs) = fold max xs x"

text \<open>
  Modelled from the spec: the enhancement step of the orchestrator (stats/permtest.h, outside
  connectomestats.cpp). Each column of the raw statistic is enhanced; with an empirical
  baseline the enhanced column is rescaled by it, element by element.
\<close>

definition enhanced_statistic ::
  "'p collaborators \<Rightarrow> enhancer \<Rightarrow> real list list option \<Rightarrow> real list list \<Rightarrow> real list list" where
  "enhanced_statistic C enhancer empirical raw =
     (case empirical of
        None \<Rightarrow> map (enhance C enhancer) raw
      | Some emp \<Rightarrow> map2 (\<lambda>col e. map2 (\<lambda>x y. x / y) (enhance C enhancer col) e) raw emp)"

text \<open>
  Modelled from the spec: one step of the orchestrator's loop (stats/permtest.h, outside
  connectomestats.cpp): "compute raw statistic via GLM Test, then enhanced statistic via
  Enhancer".
\<close>

definition permuted_statistic ::
  "'p collaborators \<Rightarrow> glm_test \<Rightarrow> enhancer \<Rightarrow> real list list option \<Rightarrow> 'p
     \<Rightarrow> error + real list list" where
  "permuted_statistic C glm_test enhancer empirical p =
     (case glm C glm_test p of
        Inl e \<Rightarrow> Inl e
      | Inr raw \<Rightarrow> Inr (enhanced_statistic C enhancer empirical raw))"

text \<open>
  Modelled from the spec: \<^verbatim>\<open>Stats::PermTest::precompute_default_permutation\<close>
  (stats/permtest.h, outside connectomestats.cpp): "compute observed (identity) raw statistic
  and enhanced statistic once". The result is (enhanced output, default output).
\<close>

definition precompute_default_permutation ::
  "'p collaborators \<Rightarrow> glm_test \<Rightarrow> enhancer \<Rightarrow> real list list option
     \<Rightarrow> error + (real list list \<times> real list list)" where
  "precompute_default_permutation C glm_test enhancer empirical =
     (case glm C glm_test (identity C) of
        Inl e \<Rightarrow> Inl e
      | Inr raw \<Rightarrow> Inr (enhanced_statistic C enhancer empirical raw, raw))"

text \<open>
  Modelled from the spec: the orchestrator's loop over the shuffles (stats/permtest.h, outside
  connectomestats.cpp): "any degenerate-design failure from the GLM Test aborts the whole
  run".
\<close>

fun evaluate :: "('p \<Rightarrow> error + 'a) \<Rightarrow> 'p list \<Rightarrow> error + 'a list" where
  "evaluate f [] = Inr []"
| "evaluate f (p # ps) =
     (case f p of
        Inl e \<Rightarrow> Inl e
      | Inr x \<Rightarrow> (case evaluate f ps of Inl e \<Rightarrow> Inl e | Inr xs \<Rightarrow> Inr (x # xs)))"

text \<open>
  Modelled from the spec: the null distribution holds, for shuffle \<open>i\<close>, "the maximum
  enhanced value across elements (or jointly across hypotheses under strong FWE)": one
  column per hypothesis, or a single column.
\<close>

definition null_distribution_of :: "bool \<Rightarrow> nat \<Rightarrow> real list list list \<Rightarrow> real list list" where
  "null_distribution_of fwe_strong num_hypotheses stats =
     (if fwe_strong then [map (\<lambda>m. maxCoeff (map maxCoeff m)) stats]
      else map (\<lambda>h. map (\<lambda>m. maxCoeff (m ! h)) stats) [0..<num_hypotheses])"

text \<open>
  Modelled from the spec: the exceedance count of element \<open>e\<close> under hypothesis \<open>h\<close> is
  the number of shuffles "whose permuted enhanced value \<ge> observed enhanced value at
  that element".
\<close>

definition exceedance_counts :: "real list list \<Rightarrow> real list list list \<Rightarrow> nat list list" where
  "exceedance_counts observed stats =
     map (\<lambda>h. map (\<lambda>e. length (filter (\<lambda>m. observed ! h ! e \<le> m ! h ! e) stats))
                [0..<length (observed ! h)])
         [0..<length observed]"

text \<open>
  Modelled from the spec: \<^verbatim>\<open>Stats::PermTest::run_permutations\<close> (stats/permtest.h, outside
  connectomestats.cpp). The shuffles are the identity followed by the shuffler's; the result is
  (null distribution, exceedance counts, uncorrected p-values), the uncorrected p-value
  being the exceedance count divided by the number of shuffles.
\<close>

definition run_permutations ::
  "'p collaborators \<Rightarrow> glm_test \<Rightarrow> enhancer \<Rightarrow> real list list option \<Rightarrow> real list list \<Rightarrow> bool
     \<Rightarrow> error + (real list list \<times> nat list list \<times> real list list)" where
  "run_permutations C glm_test enhancer empirical observed fwe_strong =
     (case evaluate (permuted_statistic C glm_test enhancer empirical) (identity C # shuffler C) of
        Inl e \<Rightarrow> Inl e
      | Inr stats \<Rightarrow>
          (let counts = exceedance_counts observed stats
           in Inr (null_distribution_of fwe_strong (length observed) stats,
                   counts,
                   map (map (\<lambda>c. real c / real (length stats))) counts)))"

text \<open>
  Modelled from the spec: \<^verbatim>\<open>Math::Stats::fwe_pvalue\<close> (math/stats/fwe.h, outside
  connectomestats.cpp): the corrected p-value is "(count of null values \<ge> observed value) / N". A null
  distribution of one column serves every hypothesis.
\<close>

definition fwe_pvalue :: "real list list \<Rightarrow> real list list \<Rightarrow> real list list" where
  "fwe_pvalue null_distributions statistics =
     map (\<lambda>h. let null_dist = (if length null_distributions = 1 then null_distributions ! 0
                                else null_distributions ! h)
               in map (\<lambda>v. real (length (filter (\<lambda>x. v \<le> x) null_dist)) / real (length null_dist))
                      (statistics ! h))
         [0..<length statistics]"

subsection \<open>The command body \<open>run()\<close>\<close>

text \<open>
  The inputs of a run, after argument parsing and file loading: \<open>importer\<close> is the cohort
  initialised from \<^verbatim>\<open>argument[0]\<close>, \<open>example_connectome\<close> the matrix reloaded at line
  175, \<open>algorithm\<close> the index \<^verbatim>\<open>int (argument[1])\<close> into \<open>nbs, nbse, none\<close>, \<open>design\<close>
  the matrix of \<^verbatim>\<open>argument[2]\<close>, \<open>column\<close> one cohort per use of \<^verbatim>\<open>-column\<close>,
  \<open>hypotheses\<close> the result of \<^verbatim>\<open>load_hypotheses (argument[3])\<close>. An option that was not
  given is \<open>None\<close>, a flag that was not given is \<open>False\<close>.
\<close>

record run_args =
  importer :: "subject list"
  example_connectome :: matrix_type
  algorithm :: int
  threshold :: "real option"
  tfce_dh :: "real option"
  tfce_e :: "real option"
  tfce_h :: "real option"
  nonstationarity :: bool
  skew_nonstationarity :: "real option"
  design :: matrix_type
  column :: "subject list list"
  hypotheses :: "Hypothesis list"
  output_prefix :: string
  notest :: bool
  strong :: bool

text \<open>Lines 169-172: every further subject has the size of the first.\<close>

fun check_sizes :: "nat \<Rightarrow> nat \<Rightarrow> subject list \<Rightarrow> unit result" where
  "check_sizes n i [] = ok ()"
| "check_sizes n i (s # rest) =
     (if size_subject s \<noteq> n then throw (SizeMismatch i (name s))
      else check_sizes n (Suc i) rest)"

text \<open>Lines 164-172; the value is \<open>num_edges\<close>.\<close>

definition load_cohort :: "run_args \<Rightarrow> nat result" where
  "load_cohort args =
     and_then (emit [Console (''Number of subjects: '' @ str (length (importer args)))]) (\<lambda>_.
       case importer args of
         [] \<Rightarrow> throw NoSubjects
       | first # rest \<Rightarrow>
           and_then (check_sizes (size_subject first) 1 rest) (\<lambda>_. ok (size_subject first)))"

text \<open>Lines 180-205: the switch on the algorithm index.\<close>

definition initialise_enhancer :: "run_args \<Rightarrow> nat \<Rightarrow> enhancer result" where
  "initialise_enhancer args num_nodes =
     (if algorithm args = 0 then
        (case threshold args of
           None \<Rightarrow> throw MissingThreshold
         | Some t \<Rightarrow> ok (NBS num_nodes (Some t)))
      else if algorithm args = 1 then
        and_then
          (when_do (threshold args \<noteq> None)
             (emit [Warn ''nbse is a threshold-free algorithm; -threshold option ignored'']))
          (\<lambda>_. ok (TFCE_Wrapper (NBS num_nodes None)
                     (get_option_value (tfce_dh args) TFCE_DH_DEFAULT)
                     (get_option_value (tfce_e args) TFCE_E_DEFAULT)
                     (get_option_value (tfce_h args) TFCE_H_DEFAULT)))
      else if algorithm args = 2 then
        and_then
          (when_do (threshold args \<noteq> None)
             (emit [Warn ''No enhancement algorithm being used; -threshold option ignored'']))
          (\<lambda>_. ok PassThrough)
      else throw UnknownAlgorithm)"

text \<open>Line 233: the warnings of \<^verbatim>\<open>check_design\<close>, then its exception if it threw.\<close>

definition checked :: "string list \<times> string option \<Rightarrow> unit result" where
  "checked r =
     (map Warn (fst r), case snd r of None \<Rightarrow> Inr () | Some msg \<Rightarrow> Inl (External msg))"

text \<open>Lines 210-233; the value is (\<open>nans_in_columns\<close>, \<open>num_factors\<close>).\<close>

definition load_design :: "'p collaborators \<Rightarrow> run_args \<Rightarrow> (bool \<times> nat) result" where
  "load_design C args =
     (if rows (design args) \<noteq> length (importer args) then
        throw (DesignRowsMismatch (length (importer args)) (rows (design args)))
      else
        (let extra_columns = column args;
             nans_in_columns = list_ex (\<lambda>c. \<not> cohort_allFinite c) extra_columns;
             num_factors = cols (design args) + length extra_columns
         in and_then (emit [Console (''Number of factors: '' @ str num_factors)]) (\<lambda>_.
            and_then (when_do (extra_columns \<noteq> [])
               (and_then
                  (emit [Console (''Number of element-wise design matrix columns: ''
                                    @ str (length extra_columns))]) (\<lambda>_.
                   when_do nans_in_columns
                     (emit [Console (''Non-finite values detected in element-wise design ''
                        @ ''matrix columns; individual rows will be removed from edge-wise ''
                        @ ''design matrices accordingly'')])))) (\<lambda>_.
            and_then (checked (check_design C (design args) (length extra_columns))) (\<lambda>_.
            ok (nans_in_columns, num_factors))))))"

text \<open>Lines 235-242; the value is \<open>num_hypotheses\<close>.\<close>

definition load_hypotheses :: "run_args \<Rightarrow> nat \<Rightarrow> nat result" where
  "load_hypotheses args num_factors =
     (case hypotheses args of
        [] \<Rightarrow> throw NoHypotheses
      | h0 # _ \<Rightarrow>
          if Hypothesis_cols h0 \<noteq> num_factors then
            throw (ContrastColsMismatch (Hypothesis_cols h0) (cols (design args))
                     (length (column args)))
          else
            and_then
              (emit [Console (''Number of hypotheses: '' @ str (length (hypotheses args)))])
              (\<lambda>_. ok (length (hypotheses args))))"

text \<open>Line 261: the hypothesis name is appended only if there are several hypotheses.\<close>

definition postfix :: "run_args \<Rightarrow> nat \<Rightarrow> string" where
  "postfix args i =
     (if length (hypotheses args) > 1 then ''_'' @ Hypothesis_name (hypotheses args ! i) else [])"

text \<open>Lines 250-258: one row per subject, and the flag computed from it.\<close>

definition agglomerate :: "run_args \<Rightarrow> matrix_type" where
  "agglomerate args = map data (importer args)"

definition nans_in_data_of :: "matrix_type \<Rightarrow> bool" where
  "nans_in_data_of data_matrix = allFinite data_matrix"

text \<open>Lines 263-287: the one-time outputs computed from the unpermuted data.\<close>

definition output_all_stats ::
  "'p collaborators \<Rightarrow> run_args \<Rightarrow> matrix_type \<Rightarrow> bool \<Rightarrow> nat \<Rightarrow> unit result" where
  "output_all_stats C args data_matrix nans_in_data num_factors =
     (let out = all_stats C data_matrix (design args) (column args) (hypotheses args)
      in emit
           ([Computed AllStats]
            @ map (\<lambda>i. SaveMatrix (''beta'' @ str i @ ''.csv'') (betas_row out i)) [0..<num_factors]
            @ concat (map (\<lambda>i. if \<not> is_F (hypotheses args ! i) then
                                   [SaveMatrix (''abs_effect'' @ postfix args i @ ''.csv'')
                                      (abs_effect_size_col out i),
                                    SaveMatrix (''std_effect'' @ postfix args i @ ''.csv'')
                                      (std_effect_size_col out i)]
                                 else [])
                        [0..<length (hypotheses args)])
            @ (if nans_in_data \<or> column args \<noteq> [] then [SaveMatrix ''cond.csv'' (cond out)]
               else [])
            @ [SaveMatrix ''std_dev.csv'' (stdev out)]))"

text \<open>Lines 289-295: the class that performs the statistical tests.\<close>

definition construct_glm_test :: "run_args \<Rightarrow> matrix_type \<Rightarrow> bool \<Rightarrow> bool \<Rightarrow> glm_test" where
  "construct_glm_test args data_matrix nans_in_data nans_in_columns =
     (if column args \<noteq> [] \<or> nans_in_data then
        TestVariable (column args) data_matrix (design args) (hypotheses args)
          nans_in_data nans_in_columns
      else TestFixed data_matrix (design args) (hypotheses args))"

text \<open>Lines 297-303: the empirical statistic, when non-stationarity adjustment is asked.\<close>

definition empirical_stage ::
  "'p collaborators \<Rightarrow> run_args \<Rightarrow> glm_test \<Rightarrow> enhancer \<Rightarrow> real list list option result" where
  "empirical_stage C args glm_test enhancer =
     (if nonstationarity args then
        and_then (emit [Computed EmpiricalStat]) (\<lambda>_.
        and_then (lift (precompute_empirical_stat C glm_test enhancer
                          (get_option_value (skew_nonstationarity args) EMPIRICAL_SKEW_DEFAULT)))
          (\<lambda>empirical_statistic.
        and_then (emit (map (\<lambda>i. SaveMatrix
                               (output_prefix args @ ''empirical'' @ postfix args i @ ''.csv'')
                               (empirical_statistic ! i))
                          [0..<length (hypotheses args)])) (\<lambda>_.
        ok (Some empirical_statistic))))
      else ok None)"

text \<open>
  Lines 305-314: the default statistic and its enhancement; an F-test column is saved
  squared. The value is (\<open>enhanced_output\<close>, \<open>default_output\<close>).
\<close>

definition default_stage ::
  "'p collaborators \<Rightarrow> run_args \<Rightarrow> glm_test \<Rightarrow> enhancer \<Rightarrow> real list list option
     \<Rightarrow> (real list list \<times> real list list) result" where
  "default_stage C args glm_test enhancer empirical_statistic =
     and_then (emit [Computed DefaultPermutation]) (\<lambda>_.
     and_then (lift (precompute_default_permutation C glm_test enhancer empirical_statistic))
       (\<lambda>(enhanced_output, default_output).
     and_then (emit (concat (map
        (\<lambda>i. [if is_F (hypotheses args ! i) then
                 SaveMatrix (output_prefix args @ ''Fvalue'' @ postfix args i @ ''.csv'')
                   (map (\<lambda>x. x * x) (default_output ! i))
               else
                 SaveMatrix (output_prefix args @ ''tvalue'' @ postfix args i @ ''.csv'')
                   (default_output ! i),
               SaveMatrix (output_prefix args @ ''enhanced'' @ postfix args i @ ''.csv'')
                 (enhanced_output ! i)])
        [0..<length (hypotheses args)]))) (\<lambda>_.
     ok (enhanced_output, default_output))))"

text \<open>Lines 316-342: the permutation test and its outputs.\<close>

definition permutation_stage ::
  "'p collaborators \<Rightarrow> run_args \<Rightarrow> glm_test \<Rightarrow> enhancer \<Rightarrow> real list list option
     \<Rightarrow> real list list \<Rightarrow> unit result" where
  "permutation_stage C args glm_test enhancer empirical_statistic enhanced_output =
     (if notest args then ok ()
      else
        (let fwe_strong = strong args; num_hypotheses = length (hypotheses args)
         in and_then (when_do (fwe_strong \<and> num_hypotheses = 1)
               (emit [Warn ''Option -strong has no effect when testing a single hypothesis only'']))
              (\<lambda>_.
            and_then (emit [Computed Permutations]) (\<lambda>_.
            and_then (lift (run_permutations C glm_test enhancer empirical_statistic
                              enhanced_output fwe_strong))
              (\<lambda>(null_distribution, null_contributions, uncorrected_pvalues).
            and_then (emit
               (if fwe_strong then
                  [SaveVector (output_prefix args @ ''null_dist.txt'') (null_distribution ! 0)]
                else map (\<lambda>i. SaveVector
                                 (output_prefix args @ ''null_dist'' @ postfix args i @ ''.txt'')
                                 (null_distribution ! i))
                       [0..<num_hypotheses])) (\<lambda>_.
            (let pvalue_output = fwe_pvalue null_distribution enhanced_output
             in emit (concat (map
                  (\<lambda>i. [SaveMatrix (output_prefix args @ ''fwe_pvalue'' @ postfix args i @ ''.csv'')
                           (pvalue_output ! i),
                         SaveMatrix
                           (output_prefix args @ ''uncorrected_pvalue'' @ postfix args i @ ''.csv'')
                           (uncorrected_pvalues ! i),
                         SaveMatrix
                           (output_prefix args @ ''null_contributions'' @ postfix args i @ ''.csv'')
                           (map real (null_contributions ! i))])
                  [0..<num_hypotheses])))))))))"

text \<open>The whole of \<^verbatim>\<open>run()\<close>, lines 160-344.\<close>

definition run :: "'p collaborators \<Rightarrow> run_args \<Rightarrow> unit result" where
  "run C args =
     and_then (load_cohort args) (\<lambda>num_edges.
     and_then (initialise_enhancer args (rows (example_connectome args))) (\<lambda>enhancer.
     and_then (load_design C args) (\<lambda>(nans_in_columns, num_factors).
     and_then (load_hypotheses args num_factors) (\<lambda>num_hypotheses.
     (let data_matrix = agglomerate args;
          nans_in_data = nans_in_data_of data_matrix
      in and_then (output_all_stats C args data_matrix nans_in_data num_factors) (\<lambda>_.
         (let glm_test = construct_glm_test args data_matrix nans_in_data nans_in_columns
          in and_then (emit [Constructed glm_test]) (\<lambda>_.
             and_then (empirical_stage C args glm_test enhancer) (\<lambda>empirical_statistic.
             and_then (default_stage C args glm_test enhancer empirical_statistic)
               (\<lambda>(enhanced_output, default_output).
             permutation_stage C args glm_test enhancer empirical_statistic
               enhanced_output))))))))))"


text \<open>What a trace says of a run.\<close>

definition trace :: "'a result \<Rightarrow> event list" where
  "trace r = fst r"

definition failed_with :: "'a result \<Rightarrow> error \<Rightarrow> bool" where
  "failed_with r e = (snd r = Inl e)"

definition failed :: "'a result \<Rightarrow> bool" where
  "failed r = isl (snd r)"

fun is_computation :: "event \<Rightarrow> bool" where
  "is_computation (Computed s) = True"
| "is_computation (Constructed t) = True"
| "is_computation ev = False"

definition nothing_computed :: "'a result \<Rightarrow> bool" where
  "nothing_computed r = (\<not> list_ex is_computation (trace r))"

subsection \<open>Example inputs\<close>

text \<open>
  A small cohort for concrete evaluation: two subjects, connectomes of two nodes and so
  three edges each, one factor, one t-type hypothesis, no enhancement. The example GLM
  computes three values from the shuffle, the same for every hypothesis.
\<close>

definition example_collaborators :: "nat list collaborators" where
  "example_collaborators =
     \<lparr>check_design = (\<lambda>d n. ([], None)),
      all_stats = (\<lambda>d g c h. \<lparr>cond = [1, 1, 1], betas_row = (\<lambda>i. [0, 0, 0]),
                              abs_effect_size_col = (\<lambda>i. [0, 0, 0]),
                              std_effect_size_col = (\<lambda>i. [0, 0, 0]), stdev = [1, 1, 1]\<rparr>),
      glm = (\<lambda>t p. Inr (map (\<lambda>h. [real (p ! 0), 2 * real (p ! 1), 1]) (hypotheses_of t))),
      nbs = (\<lambda>n t s. s),
      tfce = (\<lambda>b d e h s. s),
      precompute_empirical_stat = (\<lambda>t e s. Inr (map (\<lambda>h. [1, 1, 1]) (hypotheses_of t))),
      identity = [0, 1],
      shuffler = [[1, 0]]\<rparr>"

definition example_args :: run_args where
  "example_args =
     \<lparr>importer = [\<lparr>name = ''a.csv'', data = [Finite 1, Finite 2, Finite 3]\<rparr>,
                  \<lparr>name = ''b.csv'', data = [Finite 4, Finite 5, Finite 6]\<rparr>],
      example_connectome = [[Finite 0, Finite 1], [Finite 1, Finite 0]],
      algorithm = 2, threshold = None, tfce_dh = None, tfce_e = None, tfce_h = None,
      nonstationarity = False, skew_nonstationarity = None,
      design = [[Finite 1], [Finite 1]], column = [],
      hypotheses = [\<lparr>Hypothesis_cols = 1, is_F = False, Hypothesis_name = ''t1''\<rparr>],
      output_prefix = ''out_'', notest = False, strong = False\<rparr>"

text \<open>The same cohort with the second edge of the second subject missing.\<close>

definition missing_value_args :: run_args where
  "missing_value_args =
     example_args\<lparr>importer := [\<lparr>name = ''a.csv'', data = [Finite 1, Finite 2, Finite 3]\<rparr>,
                               \<lparr>name = ''b.csv'', data = [Finite 4, NonFinite, Finite 6]\<rparr>]\<rparr>"


text \<open>NBS without a threshold, on a cohort whose second connectome has a single node.\<close>

definition nbs_ragged_cohort_args :: run_args where
  "nbs_ragged_cohort_args =
     example_args\<lparr>algorithm := 0,
                   importer := [\<lparr>name = ''a.csv'', data = [Finite 1, Finite 2, Finite 3]\<rparr>,
                                \<lparr>name = ''b.csv'', data = [Finite 4]\<rparr>]\<rparr>"

text \<open>A GLM test on one hypothesis, for evaluating the permutation test alone.\<close>

definition example_test :: glm_test where
  "example_test =
     TestFixed [] [] [\<lparr>Hypothesis_cols = 1, is_F = False, Hypothesis_name = ''t1''\<rparr>]"


text \<open>A contrast with two columns for the single factor.\<close>

definition wide_contrast_args :: run_args where
  "wide_contrast_args =
     example_args\<lparr>hypotheses := [\<lparr>Hypothesis_cols = 2, is_F = False, Hypothesis_name = ''t1''\<rparr>]\<rparr>"

text \<open>
  Connectome helpers for concrete evaluation of the importer: a connectome must be
  square, is directed when it differs from its transpose, and is flattened to its upper
  triangle with the diagonal.
\<close>

definition example_ops :: connectome_ops where
  "example_ops =
     \<lparr>check = (\<lambda>M. list_all (\<lambda>r. length r = length M) M),
      is_directed = (\<lambda>M. M \<noteq> transpose M),
      to_upper = (\<lambda>M. map (\<lambda>i. replicate i (Finite 0) @ drop i (M ! i)) [0..<length M]),
      M2V = (\<lambda>n M. concat (map (\<lambda>i. drop i (M ! i)) [0..<n]))\<rparr>"

section \<open>Properties\<close>

text \<open>Collections of defining equations, for unfolding.\<close>

lemmas stage_defs = load_cohort_def initialise_enhancer_def load_design_def load_hypotheses_def
  output_all_stats_def construct_glm_test_def empirical_stage_def default_stage_def
  permutation_stage_def agglomerate_def nans_in_data_of_def postfix_def checked_def

lemmas result_defs = and_then_def emit_def ok_def throw_def lift_def when_do_def

lemmas orchestrator_defs = precompute_default_permutation_def enhanced_statistic_def
  run_permutations_def permuted_statistic_def exceedance_counts_def null_distribution_of_def
  fwe_pvalue_def

lemma str_small: "str 0 = ''0''" "str (Suc 0) = ''1''" "str (Suc (Suc 0)) = ''2''"
  by (simp_all add: str_def digit_def)

subsection \<open>Sequencing of results\<close>

lemma and_then_Inl: "and_then (evs, Inl e) f = (evs, Inl e)"
  by (simp add: and_then_def)

lemma and_then_Inr: "and_then (evs, Inr x) f = (evs @ fst (f x), snd (f x))"
  by (simp add: and_then_def split: prod.splits)

lemma and_then_stops: "snd m = Inl e \<Longrightarrow> and_then m f = (fst m, Inl e)"
  by (cases m) (simp add: and_then_Inl)

lemma and_then_goes: "snd m = Inr x \<Longrightarrow> and_then m f = (fst m @ fst (f x), snd (f x))"
  by (cases m) (simp add: and_then_Inr)

subsection \<open>The checks that precede every computation\<close>

lemma check_sizes_silent: "fst (check_sizes n i xs) = []"
  by (induction xs arbitrary: i) (simp_all add: ok_def throw_def)

lemma check_sizes_passes:
  "\<forall>s\<in>set xs. size_subject s = n \<Longrightarrow> check_sizes n i xs = ([], Inr ())"
  by (induction xs arbitrary: i) (simp_all add: ok_def)


lemma load_cohort_passes:
  assumes "importer args = first # rest" and "\<forall>s\<in>set rest. size_subject s = size_subject first"
  shows "load_cohort args =
           ([Console (''Number of subjects: '' @ str (length (importer args)))],
            Inr (size_subject first))"
  using assms check_sizes_passes [of rest "size_subject first" 1]
  by (simp add: load_cohort_def result_defs)


lemma load_cohort_quiet: "\<not> list_ex is_computation (fst (load_cohort args))"
proof (cases "importer args")
  case Nil
  then show ?thesis by (simp add: load_cohort_def result_defs)
next
  case (Cons first rest)
  then show ?thesis
    using check_sizes_silent [of "size_subject first" 1 rest]
    by (cases "check_sizes (size_subject first) 1 rest")
       (auto simp add: load_cohort_def result_defs split: sum.splits)
qed

lemma initialise_enhancer_quiet: "\<not> list_ex is_computation (fst (initialise_enhancer args n))"
  by (simp add: initialise_enhancer_def result_defs split: option.splits)

lemma initialise_enhancer_nbs:
  "algorithm args = 0 \<Longrightarrow> threshold args = None \<Longrightarrow>
     initialise_enhancer args n = ([], Inl MissingThreshold)"
  by (simp add: initialise_enhancer_def result_defs)

lemma list_ex_map_Warn: "\<not> list_ex is_computation (map Warn ws)"
  by (induction ws) simp_all

lemma load_design_quiet: "\<not> list_ex is_computation (fst (load_design C args))"
  by (simp add: load_design_def result_defs checked_def Let_def list_ex_map_Warn
        split: option.splits)


lemma load_design_factors:
  "snd (load_design C args) = Inr (nans_in_columns, num_factors) \<Longrightarrow>
     num_factors = cols (design args) + length (column args)"
  by (auto simp add: load_design_def result_defs checked_def Let_def split: option.splits if_splits)

lemma load_hypotheses_throws:
  "hypotheses args = h0 # hs \<Longrightarrow> Hypothesis_cols h0 \<noteq> num_factors \<Longrightarrow>
     load_hypotheses args num_factors =
       ([], Inl (ContrastColsMismatch (Hypothesis_cols h0) (cols (design args))
                   (length (column args))))"
  by (simp add: load_hypotheses_def result_defs)

text \<open>
  Claim C7. The number of factors is the number of design-matrix columns plus the number
  of uses of \<^verbatim>\<open>-column\<close> (line 226). When the column count of the loaded hypotheses
  (read from the first one, line 238) differs from it, the run ends in an exception, and
  it does so before \<^verbatim>\<open>all_stats\<close>, before a GLM test is constructed and before any
  permutation.
\<close>

theorem contrast_columns_checked:
  assumes "hypotheses args = h0 # hs"
      and "Hypothesis_cols h0 \<noteq> cols (design args) + length (column args)"
  shows "failed (run C args) \<and> nothing_computed (run C args)"
proof -
  obtain e1 r1 where s1: "load_cohort args = (e1, r1)" by (cases "load_cohort args")
  obtain e2 r2 where s2: "initialise_enhancer args (rows (example_connectome args)) = (e2, r2)"
    by (cases "initialise_enhancer args (rows (example_connectome args))")
  obtain e3 r3 where s3: "load_design C args = (e3, r3)" by (cases "load_design C args")
  have q1: "\<not> list_ex is_computation e1" using load_cohort_quiet [of args] s1 by simp
  have q2: "\<not> list_ex is_computation e2"
    using initialise_enhancer_quiet [of args "rows (example_connectome args)"] s2 by simp
  have q3: "\<not> list_ex is_computation e3" using load_design_quiet [of C args] s3 by simp
  have f3: "r3 = Inr (b, nf) \<Longrightarrow> nf = cols (design args) + length (column args)" for b nf
    using load_design_factors [of C args b nf] s3 by simp
  show ?thesis
  proof (cases r1)
    case (Inl e)
    with s1 q1 show ?thesis by (simp add: run_def and_then_Inl failed_def nothing_computed_def trace_def)
  next
    case r1: (Inr num_edges)
    show ?thesis
    proof (cases r2)
      case (Inl e)
      with s1 s2 r1 q1 q2 show ?thesis
        by (simp add: run_def and_then_Inl and_then_Inr failed_def nothing_computed_def trace_def)
    next
      case r2: (Inr enh)
      show ?thesis
      proof (cases r3)
        case (Inl e)
        with s1 s2 s3 r1 r2 q1 q2 q3 show ?thesis
          by (simp add: run_def and_then_Inl and_then_Inr failed_def nothing_computed_def trace_def)
      next
        case (Inr v)
        obtain b nf where v: "v = (b, nf)" by (cases v)
        with Inr f3 have nf: "nf = cols (design args) + length (column args)" by simp
        from load_hypotheses_throws [OF assms(1), of nf] assms(2) nf
        have "load_hypotheses args nf =
                ([], Inl (ContrastColsMismatch (Hypothesis_cols h0) (cols (design args))
                   (length (column args))))" by simp
        with s1 s2 s3 r1 r2 Inr v q1 q2 q3 show ?thesis
          by (simp add: run_def and_then_Inl and_then_Inr failed_def nothing_computed_def trace_def)
      qed
    qed
  qed
qed

theorem contrast_columns_checked_witness:
  "hypotheses wide_contrast_args =
     [\<lparr>Hypothesis_cols = 2, is_F = False, Hypothesis_name = ''t1''\<rparr>] \<and>
   (2::nat) \<noteq> cols (design wide_contrast_args) + length (column wide_contrast_args) \<and>
   failed (run example_collaborators wide_contrast_args) \<and>
   nothing_computed (run example_collaborators wide_contrast_args)"
  using contrast_columns_checked
    [of wide_contrast_args "\<lparr>Hypothesis_cols = 2, is_F = False, Hypothesis_name = ''t1''\<rparr>" "[]"
        example_collaborators]
  by (simp add: wide_contrast_args_def example_args_def cols_def)

lemma run_stops_in_cohort:
  "snd (load_cohort args) = Inl e \<Longrightarrow> run C args = (fst (load_cohort args), Inl e)"
  by (simp add: run_def and_then_stops)

lemma run_stops_in_enhancer:
  "snd (load_cohort args) = Inr n \<Longrightarrow>
   snd (initialise_enhancer args (rows (example_connectome args))) = Inl e \<Longrightarrow>
     run C args =
       (fst (load_cohort args) @ fst (initialise_enhancer args (rows (example_connectome args))),
        Inl e)"
  by (simp add: run_def and_then_goes and_then_stops)







text \<open>
  Claim C5, amended. With the NBS algorithm and no \<^verbatim>\<open>-threshold\<close> option the run ends
  in an exception before anything is computed. The exception is the missing-threshold
  error whenever the cohort check of lines 169-172 passes, that is, when the cohort is
  not empty and every subject's vector has the length of the first.
\<close>

theorem nbs_requires_threshold:
  assumes "algorithm args = 0" and "threshold args = None"
  shows "failed (run C args) \<and> nothing_computed (run C args) \<and>
         ((\<exists>first rest. importer args = first # rest \<and>
              (\<forall>s\<in>set rest. size_subject s = size_subject first))
          \<longrightarrow> failed_with (run C args) MissingThreshold)"
proof -
  let ?n = "rows (example_connectome args)"
  have ie: "initialise_enhancer args ?n = ([], Inl MissingThreshold)"
    using initialise_enhancer_nbs [OF assms] .
  have q: "\<not> list_ex is_computation (fst (load_cohort args))" by (rule load_cohort_quiet)
  have early: "failed (run C args) \<and> nothing_computed (run C args)"
  proof (cases "snd (load_cohort args)")
    case (Inl e)
    from run_stops_in_cohort [OF Inl, of C] q show ?thesis by (simp add: failed_def failed_with_def nothing_computed_def trace_def)
  next
    case (Inr n)
    from run_stops_in_enhancer [OF Inr, of MissingThreshold C] ie q show ?thesis
      by (simp add: failed_def failed_with_def nothing_computed_def trace_def)
  qed
  have "failed_with (run C args) MissingThreshold"
    if "importer args = first # rest" and "\<forall>s\<in>set rest. size_subject s = size_subject first"
    for first rest
  proof -
    from load_cohort_passes [OF that]
    have "snd (load_cohort args) = Inr (size_subject first)" by simp
    from run_stops_in_enhancer [OF this, of MissingThreshold C] ie show ?thesis
      by (simp add: failed_def failed_with_def nothing_computed_def trace_def)
  qed
  with early show ?thesis by blast
qed

theorem nbs_requires_threshold_witness:
  "algorithm (example_args\<lparr>algorithm := 0\<rparr>) = 0 \<and> threshold (example_args\<lparr>algorithm := 0\<rparr>) = None \<and>
   failed_with (run example_collaborators (example_args\<lparr>algorithm := 0\<rparr>)) MissingThreshold \<and>
   nothing_computed (run example_collaborators (example_args\<lparr>algorithm := 0\<rparr>))"
  using nbs_requires_threshold [of "example_args\<lparr>algorithm := 0\<rparr>" example_collaborators]
  by (simp add: example_args_def size_subject_def)

text \<open>
  The claim as stated asks for the missing-threshold error on every such configuration.
  On a cohort whose second subject is shorter, the size check of line 170 fires first.
\<close>

theorem ragged_cohort_counterexample:
  "algorithm nbs_ragged_cohort_args = 0 \<and> threshold nbs_ragged_cohort_args = None \<and>
   run example_collaborators nbs_ragged_cohort_args =
     ([Console ''Number of subjects: 2''], Inl (SizeMismatch 1 ''b.csv'')) \<and>
   SizeMismatch 1 ''b.csv'' \<noteq> MissingThreshold"
  by (simp add: run_def stage_defs result_defs example_collaborators_def
        example_args_def nbs_ragged_cohort_args_def size_subject_def rows_def cols_def
        str_small)

subsection \<open>The importer\<close>

text \<open>
  Claim C10. A connectome that \<^verbatim>\<open>Connectome::is_directed\<close> reports as directed is never
  imported: the constructor ends in an exception. A connectome that passes
  \<^verbatim>\<open>Connectome::check\<close> and is not directed is converted by \<^verbatim>\<open>to_upper\<close> and flattened
  by \<^verbatim>\<open>Mat2Vec::M2V\<close>. Hence the data of every imported subject comes from a connectome
  that is not directed.
\<close>

theorem directed_connectome_rejected:
  "(is_directed ops M \<longrightarrow> isl (SubjectConnectomeImport ops path M)) \<and>
   (check ops M \<and> is_directed ops M \<longrightarrow>
      SubjectConnectomeImport ops path M = Inl (DirectedMatrix path)) \<and>
   (check ops M \<and> \<not> is_directed ops M \<longrightarrow>
      SubjectConnectomeImport ops path M =
        Inr \<lparr>name = path, data = M2V ops (rows M) (to_upper ops M)\<rparr>) \<and>
   (\<forall>s. SubjectConnectomeImport ops path M = Inr s \<longrightarrow>
      \<not> is_directed ops M \<and> data s = M2V ops (rows M) (to_upper ops M))"
  by (auto simp add: SubjectConnectomeImport_def)

theorem directed_connectome_rejected_witness:
  "is_directed example_ops [[Finite 0, Finite 1], [Finite 2, Finite 0]] \<and>
   SubjectConnectomeImport example_ops ''d.csv'' [[Finite 0, Finite 1], [Finite 2, Finite 0]]
     = Inl (DirectedMatrix ''d.csv'') \<and>
   check example_ops [[Finite 0, Finite 1], [Finite 1, Finite 0]] \<and>
   \<not> is_directed example_ops [[Finite 0, Finite 1], [Finite 1, Finite 0]] \<and>
   SubjectConnectomeImport example_ops ''s.csv'' [[Finite 0, Finite 1], [Finite 1, Finite 0]]
     = Inr \<lparr>name = ''s.csv'', data = [Finite 0, Finite 1, Finite 0]\<rparr>"
  using directed_connectome_rejected
          [of example_ops "[[Finite 0, Finite 1], [Finite 2, Finite 0]]" "''d.csv''"]
        directed_connectome_rejected
          [of example_ops "[[Finite 0, Finite 1], [Finite 1, Finite 0]]" "''s.csv''"]
  by (simp add: example_ops_def transpose.simps rows_def)

subsection \<open>The enhancer switch\<close>

lemma map_pass_through: "map (enhance C PassThrough) raw = raw"
  by (induction raw) simp_all

text \<open>
  Claim C8. With the algorithm \<open>none\<close> (index 2) the switch installs \<^verbatim>\<open>PassThrough\<close>,
  whatever the other options; that enhancer returns every statistic vector unchanged,
  and so does the enhancement of a whole statistic matrix without empirical baseline.
\<close>

theorem pass_through_is_identity:
  assumes "algorithm args = 2"
  shows "snd (initialise_enhancer args num_nodes) = Inr PassThrough \<and>
         enhance C PassThrough stat = stat \<and>
         enhanced_statistic C PassThrough None raw = raw"
  using assms
  by (simp add: initialise_enhancer_def result_defs enhanced_statistic_def map_pass_through)

theorem pass_through_is_identity_witness:
  "algorithm example_args = 2 \<and>
   snd (initialise_enhancer example_args 2) = Inr PassThrough \<and>
   enhance example_collaborators PassThrough [3, -1, 2] = [3, -1, 2]"
  using pass_through_is_identity [of example_args 2 example_collaborators "[3, -1, 2]" "[]"]
  by (simp add: example_args_def)

subsection \<open>The choice of the GLM test\<close>

lemma construct_glm_test_without_columns:
  "column args = [] \<Longrightarrow>
     construct_glm_test args (agglomerate args) (nans_in_data_of (agglomerate args)) nic =
       (if allFinite (agglomerate args)
        then TestVariable [] (agglomerate args) (design args) (hypotheses args) True nic
        else TestFixed (agglomerate args) (design args) (hypotheses args))"
  by (simp add: construct_glm_test_def nans_in_data_of_def)

text \<open>
  Claim C1 asks for \<^verbatim>\<open>TestVariable\<close> whenever an observation is not finite. Line 258
  assigns \<^verbatim>\<open>data.allFinite()\<close> to \<open>nans_in_data\<close>, without the negation that line 223
  applies to the extra columns. On the cohort with one missing value and no extra
  column the run therefore constructs \<^verbatim>\<open>TestFixed\<close>.
\<close>

theorem missing_value_selects_fixed_test:
  "\<not> allFinite (agglomerate missing_value_args) \<and>
   run example_collaborators missing_value_args =
     ([Console ''Number of subjects: 2'', Console ''Number of factors: 1'',
       Console ''Number of hypotheses: 1'', Computed AllStats,
       SaveMatrix ''beta0.csv'' [0, 0, 0], SaveMatrix ''abs_effect.csv'' [0, 0, 0],
       SaveMatrix ''std_effect.csv'' [0, 0, 0], SaveMatrix ''std_dev.csv'' [1, 1, 1],
       Constructed
        (TestFixed [[Finite 1, Finite 2, Finite 3], [Finite 4, NonFinite, Finite 6]]
          [[Finite 1], [Finite 1]]
          [\<lparr>Hypothesis_cols = 1, is_F = False, Hypothesis_name = ''t1''\<rparr>]),
       Computed DefaultPermutation, SaveMatrix ''out_tvalue.csv'' [0, 2, 1],
       SaveMatrix ''out_enhanced.csv'' [0, 2, 1], Computed Permutations,
       SaveVector ''out_null_dist.txt'' [2, 1],
       SaveMatrix ''out_fwe_pvalue.csv'' [1, 1 / 2, 1],
       SaveMatrix ''out_uncorrected_pvalue.csv'' [1, 1 / 2, 1],
       SaveMatrix ''out_null_contributions.csv'' [2, 1, 2]],
      Inr ())"
  by (simp add: run_def stage_defs result_defs orchestrator_defs example_collaborators_def
        example_args_def missing_value_args_def size_subject_def
        rows_def cols_def str_small allFinite_def)

subsection \<open>The permutation test\<close>

lemma fold_max_bounds: "a \<le> fold max xs a \<and> (\<forall>x\<in>set xs. x \<le> fold max xs (a::real))"
proof (induction xs arbitrary: a)
  case Nil
  show ?case by simp
next
  case (Cons y ys)
  from Cons.IH [of "max y a"] show ?case by auto
qed

lemma maxCoeff_upper: "x \<in> set xs \<Longrightarrow> x \<le> maxCoeff xs"
proof (cases xs)
  case Nil
  then show "x \<in> set xs \<Longrightarrow> x \<le> maxCoeff xs" by simp
next
  case (Cons y ys)
  assume "x \<in> set xs"
  with Cons fold_max_bounds [of y ys] show "x \<le> maxCoeff xs" by auto
qed

lemma evaluate_results:
  "evaluate f ps = Inr xs \<Longrightarrow> list_all2 (\<lambda>p x. f p = Inr x) ps xs"
proof (induction ps arbitrary: xs)
  case Nil
  then show ?case by simp
next
  case (Cons p ps)
  then show ?case by (auto split: sum.splits)
qed

lemma filter_count_mono:
  "(\<And>x. x \<in> set xs \<Longrightarrow> P x \<Longrightarrow> Q x) \<Longrightarrow> length (filter P xs) \<le> length (filter Q xs)"
proof (induction xs)
  case Nil
  show ?case by simp
next
  case (Cons x xs)
  then have "length (filter P xs) \<le> length (filter Q xs)" by simp
  with Cons.prems [of x] show ?case by auto
qed

lemma null_column:
  assumes "h < n"
  shows "(if length (null_distribution_of fwe_strong n stats) = 1
          then null_distribution_of fwe_strong n stats ! 0
          else null_distribution_of fwe_strong n stats ! h)
         = map (\<lambda>m. if fwe_strong then maxCoeff (map maxCoeff m) else maxCoeff (m ! h)) stats"
proof (cases fwe_strong)
  case True
  then show ?thesis by (simp add: null_distribution_of_def)
next
  case False
  show ?thesis
  proof (cases "n = 1")
    case True
    with assms have "h = 0" by simp
    with True False show ?thesis by (simp add: null_distribution_of_def)
  next
    case n: False
    with False assms show ?thesis by (simp add: null_distribution_of_def)
  qed
qed

lemma fwe_pvalue_nth:
  assumes "h < length observed" and "e < length (observed ! h)"
  shows "fwe_pvalue (null_distribution_of fwe_strong (length observed) stats) observed ! h ! e =
           real (length (filter (\<lambda>m. observed ! h ! e \<le>
                   (if fwe_strong then maxCoeff (map maxCoeff m) else maxCoeff (m ! h))) stats))
           / real (length stats)"
proof -
  let ?g = "\<lambda>m. if fwe_strong then maxCoeff (map maxCoeff m) else maxCoeff (m ! h)"
  have col: "(if length (null_distribution_of fwe_strong (length observed) stats) = 1
          then null_distribution_of fwe_strong (length observed) stats ! 0
          else null_distribution_of fwe_strong (length observed) stats ! h) = map ?g stats"
    using null_column [OF assms(1)] .
  have "fwe_pvalue (null_distribution_of fwe_strong (length observed) stats) observed ! h ! e =
          real (length (filter (\<lambda>x. observed ! h ! e \<le> x)
            (if length (null_distribution_of fwe_strong (length observed) stats) = 1
             then null_distribution_of fwe_strong (length observed) stats ! 0
             else null_distribution_of fwe_strong (length observed) stats ! h)))
          / real (length
            (if length (null_distribution_of fwe_strong (length observed) stats) = 1
             then null_distribution_of fwe_strong (length observed) stats ! 0
             else null_distribution_of fwe_strong (length observed) stats ! h))"
    using assms by (simp add: fwe_pvalue_def Let_def split del: if_split cong del: if_weak_cong)
  also have "\<dots> = real (length (filter (\<lambda>x. observed ! h ! e \<le> x) (map ?g stats)))
          / real (length (map ?g stats))"
    unfolding col ..
  also have "\<dots> = real (length (filter (\<lambda>m. observed ! h ! e \<le> ?g m) stats)) / real (length stats)"
    by (simp add: comp_def)
  finally show ?thesis .
qed

lemma exceedance_counts_nth:
  assumes "h < length observed" and "e < length (observed ! h)"
  shows "exceedance_counts observed stats ! h ! e =
           length (filter (\<lambda>m. observed ! h ! e \<le> m ! h ! e) stats)"
  using assms by (simp add: exceedance_counts_def)

lemma run_permutations_results:
  assumes "run_permutations C t enh emp observed fwe_strong = Inr (null, counts, unc)"
  obtains stats where
    "list_all2 (\<lambda>p m. permuted_statistic C t enh emp p = Inr m) (identity C # shuffler C) stats"
    and "null = null_distribution_of fwe_strong (length observed) stats"
    and "counts = exceedance_counts observed stats"
    and "unc = map (map (\<lambda>c. real c / real (length stats))) counts"
proof (cases "evaluate (permuted_statistic C t enh emp) (identity C # shuffler C)")
  case (Inl err)
  with assms show ?thesis by (simp add: run_permutations_def del: evaluate.simps)
next
  case (Inr stats)
  with assms have "null = null_distribution_of fwe_strong (length observed) stats"
    and "counts = exceedance_counts observed stats"
    and "unc = map (map (\<lambda>c. real c / real (length stats))) counts"
    by (auto simp add: run_permutations_def Let_def simp del: evaluate.simps)
  with evaluate_results [OF Inr] that show ?thesis by blast
qed

text \<open>
  Claim C2. After a completed permutation run, the uncorrected p-value of element \<open>e\<close>
  under hypothesis \<open>h\<close> is the exceedance count divided by the number \<open>N\<close> of shuffles
  (the identity and the shuffler's), and it is at most the corrected p-value that the FWE
  calculator derives from the null distribution. The statistic of every shuffle has the
  hypothesis \<open>h\<close> and the element \<open>e\<close>.
\<close>

theorem uncorrected_below_corrected:
  assumes run: "run_permutations C t enh emp observed fwe_strong = Inr (null, counts, unc)"
      and h: "h < length observed" and e: "e < length (observed ! h)"
      and shape: "\<forall>p\<in>set (identity C # shuffler C). \<forall>m.
                    permuted_statistic C t enh emp p = Inr m \<longrightarrow> h < length m \<and> e < length (m ! h)"
  shows "unc ! h ! e = real (counts ! h ! e) / real (Suc (length (shuffler C))) \<and>
         unc ! h ! e \<le> fwe_pvalue null observed ! h ! e"
proof -
  from run obtain stats where
    all: "list_all2 (\<lambda>p m. permuted_statistic C t enh emp p = Inr m) (identity C # shuffler C) stats"
    and null: "null = null_distribution_of fwe_strong (length observed) stats"
    and counts: "counts = exceedance_counts observed stats"
    and unc: "unc = map (map (\<lambda>c. real c / real (length stats))) counts"
    by (rule run_permutations_results)
  let ?v = "observed ! h ! e"
  let ?g = "\<lambda>m. if fwe_strong then maxCoeff (map maxCoeff m) else maxCoeff (m ! h)"
  have len: "length stats = Suc (length (shuffler C))"
    using list_all2_lengthD [OF all] by simp
  have in_shape: "h < length m \<and> e < length (m ! h)" if "m \<in> set stats" for m
  proof -
    from that obtain i where i: "i < length stats" "m = stats ! i" by (auto simp add: in_set_conv_nth)
    with all have "permuted_statistic C t enh emp ((identity C # shuffler C) ! i) = Inr m"
      by (simp add: list_all2_conv_all_nth)
    moreover have "(identity C # shuffler C) ! i \<in> set (identity C # shuffler C)"
      using i(1) len by (intro nth_mem) simp
    ultimately show ?thesis using shape by blast
  qed
  have below: "m ! h ! e \<le> ?g m" if "m \<in> set stats" for m
  proof -
    from in_shape [OF that] have hm: "h < length m" and em: "e < length (m ! h)" by simp_all
    have one: "m ! h ! e \<le> maxCoeff (m ! h)" using em by (intro maxCoeff_upper) simp
    have "maxCoeff (m ! h) \<le> maxCoeff (map maxCoeff m)"
      using hm by (intro maxCoeff_upper) simp
    with one show ?thesis by simp
  qed
  have cnt: "counts ! h ! e = length (filter (\<lambda>m. ?v \<le> m ! h ! e) stats)"
    using counts exceedance_counts_nth [OF h e] by simp
  have lens: "h < length counts" "e < length (counts ! h)"
    using counts h e by (simp_all add: exceedance_counts_def)
  have u: "unc ! h ! e = real (counts ! h ! e) / real (length stats)"
    using unc lens by simp
  have p: "fwe_pvalue null observed ! h ! e =
             real (length (filter (\<lambda>m. ?v \<le> ?g m) stats)) / real (length stats)"
    using null fwe_pvalue_nth [OF h e] by simp
  have "length (filter (\<lambda>m. ?v \<le> m ! h ! e) stats) \<le> length (filter (\<lambda>m. ?v \<le> ?g m) stats)"
  proof (rule filter_count_mono)
    fix m assume "m \<in> set stats" and "?v \<le> m ! h ! e"
    with below [of m] show "?v \<le> ?g m" by simp
  qed
  then have "real (counts ! h ! e) / real (length stats)
             \<le> real (length (filter (\<lambda>m. ?v \<le> ?g m) stats)) / real (length stats)"
    using cnt by (intro divide_right_mono) simp_all
  with u p len show ?thesis by simp
qed

theorem uncorrected_below_corrected_witness:
  "run_permutations example_collaborators example_test PassThrough None [[0, 2, 1]] False
     = Inr ([[2, 1]], [[2, 1, 2]], [[1, 1 / 2, 1]]) \<and>
   [[1, 1 / 2, 1]] ! 0 ! 1 \<le> fwe_pvalue [[2, 1]] [[0, 2, 1 :: real]] ! 0 ! 1"
  using uncorrected_below_corrected
    [of example_collaborators example_test PassThrough None "[[0, 2, 1]]" False
        "[[2, 1]]" "[[2, 1, 2]]" "[[1, 1 / 2, 1]]" 0 1]
  by (simp add: orchestrator_defs example_collaborators_def example_test_def)

lemma default_is_identity_shuffle:
  "precompute_default_permutation C t enh emp = Inr (enhanced_output, default_output) \<Longrightarrow>
     permuted_statistic C t enh emp (identity C) = Inr enhanced_output"
  by (auto simp add: precompute_default_permutation_def permuted_statistic_def split: sum.splits)

text \<open>
  Claim C3. The observed statistic is the statistic of the identity, which is the first
  shuffle of the permutation run and so a member of its own null distribution. Hence,
  with \<open>N\<close> shuffles, every corrected p-value lies between \<open>1 / N\<close> and \<open>1\<close> and is not
  zero.
\<close>

theorem corrected_pvalue_bounds:
  assumes dflt: "precompute_default_permutation C t enh emp = Inr (enhanced_output, default_output)"
      and run: "run_permutations C t enh emp enhanced_output fwe_strong = Inr (null, counts, unc)"
      and h: "h < length enhanced_output" and e: "e < length (enhanced_output ! h)"
  shows "1 / real (Suc (length (shuffler C))) \<le> fwe_pvalue null enhanced_output ! h ! e \<and>
         fwe_pvalue null enhanced_output ! h ! e \<le> 1 \<and>
         fwe_pvalue null enhanced_output ! h ! e \<noteq> 0"
proof -
  from run obtain stats where
    all: "list_all2 (\<lambda>p m. permuted_statistic C t enh emp p = Inr m) (identity C # shuffler C) stats"
    and null: "null = null_distribution_of fwe_strong (length enhanced_output) stats"
    by (rule run_permutations_results)
  let ?v = "enhanced_output ! h ! e"
  let ?g = "\<lambda>m. if fwe_strong then maxCoeff (map maxCoeff m) else maxCoeff (m ! h)"
  let ?count = "length (filter (\<lambda>m. ?v \<le> ?g m) stats)"
  let ?N = "Suc (length (shuffler C))"
  have len: "length stats = ?N"
    using list_all2_lengthD [OF all] by simp
  from all obtain rest where stats: "stats = enhanced_output # rest"
    using default_is_identity_shuffle [OF dflt] by (auto simp add: list_all2_Cons1)
  have one: "?v \<le> maxCoeff (enhanced_output ! h)" using e by (intro maxCoeff_upper) simp
  have "maxCoeff (enhanced_output ! h) \<le> maxCoeff (map maxCoeff enhanced_output)"
    using h by (intro maxCoeff_upper) simp
  with one have "?v \<le> ?g enhanced_output" by simp
  then have lower: "1 \<le> ?count" using stats by simp
  have upper: "?count \<le> ?N" using length_filter_le [of "\<lambda>m. ?v \<le> ?g m" stats] len by simp
  have p: "fwe_pvalue null enhanced_output ! h ! e = real ?count / real ?N"
    using null fwe_pvalue_nth [OF h e] len by simp
  have low: "1 / real ?N \<le> real ?count / real ?N"
    using lower by (intro divide_right_mono) simp_all
  have up: "real ?count / real ?N \<le> 1"
    using upper by (simp add: divide_le_eq)
  have "0 < 1 / real ?N" by simp
  from this low have "0 < real ?count / real ?N" by (rule less_le_trans)
  then have "real ?count / real ?N \<noteq> 0" by (rule less_imp_neq [THEN not_sym])
  with low up p show ?thesis by simp
qed

theorem corrected_pvalue_bounds_witness:
  "precompute_default_permutation example_collaborators example_test PassThrough None
     = Inr ([[0, 2, 1]], [[0, 2, 1]]) \<and>
   run_permutations example_collaborators example_test PassThrough None [[0, 2, 1]] False
     = Inr ([[2, 1]], [[2, 1, 2]], [[1, 1 / 2, 1]]) \<and>
   1 / 2 \<le> fwe_pvalue [[2, 1]] [[0, 2, 1 :: real]] ! 0 ! 1 \<and>
   fwe_pvalue [[2, 1]] [[0, 2, 1 :: real]] ! 0 ! 1 \<le> 1 \<and>
   fwe_pvalue [[2, 1]] [[0, 2, 1 :: real]] ! 0 ! 1 \<noteq> 0"
  using corrected_pvalue_bounds
    [of example_collaborators example_test PassThrough None "[[0, 2, 1]]" "[[0, 2, 1]]" False
        "[[2, 1]]" "[[2, 1, 2]]" "[[1, 1 / 2, 1]]" 0 1]
  by (simp add: orchestrator_defs example_collaborators_def example_test_def)

subsection \<open>Strong FWE with a single hypothesis\<close>





lemma postfix_single: "length (hypotheses args) = 1 \<Longrightarrow> postfix args i = []"
  by (simp add: postfix_def)




















subsection \<open>The saved F-values\<close>

text \<open>
  Lines 308-313: for an F-type hypothesis the run saves, as the F-value, the element-wise
  square of the column that the default permutation produced; no saved F-value is
  negative.
\<close>

lemma saved_F_values_are_squares:
  assumes "precompute_default_permutation C t enh emp = Inr (enhanced_output, default_output)"
      and "i < length (hypotheses args)" and "is_F (hypotheses args ! i)"
  shows "SaveMatrix (output_prefix args @ ''Fvalue'' @ postfix args i @ ''.csv'')
           (map (\<lambda>x. x * x) (default_output ! i))
           \<in> set (fst (default_stage C args t enh emp)) \<and>
         (\<forall>y\<in>set (map (\<lambda>x. x * x) (default_output ! i)). 0 \<le> y)"
proof -
  have "fst (default_stage C args t enh emp) =
          Computed DefaultPermutation #
          concat (map
            (\<lambda>i. [if is_F (hypotheses args ! i) then
                     SaveMatrix (output_prefix args @ ''Fvalue'' @ postfix args i @ ''.csv'')
                       (map (\<lambda>x. x * x) (default_output ! i))
                   else
                     SaveMatrix (output_prefix args @ ''tvalue'' @ postfix args i @ ''.csv'')
                       (default_output ! i),
                   SaveMatrix (output_prefix args @ ''enhanced'' @ postfix args i @ ''.csv'')
                     (enhanced_output ! i)])
            [0..<length (hypotheses args)])"
    using assms(1) by (simp add: default_stage_def result_defs)
  with assms(2, 3) show ?thesis by auto
qed

end
